theory Spec2Isabelle
  imports Complex_Main "HOL-Library.Char_ord" "HOL-Library.List_Lexorder"
    "HOL-Library.Product_Lexorder"
begin

section \<open>Data model\<close>

text \<open>
  The pipeline works on pandas data frames. A frame is modelled row-major: the header
  (\<open>columns\<close>), one dtype per column (\<open>dtypes\<close>, which is what
  \<^verbatim>\<open>select_dtypes(include=["object"])\<close> reads) and the rows, each a list of cells.
  Row labels (the index) are not modelled: no operation of the three stages reads them.
  A missing value (NaN, None, NaT) is the cell \<open>NA\<close>; a \<^verbatim>\<open>datetime.date\<close> is written
  as the timestamp of its midnight, without timezone. Amounts are float64 in the code;
  they are modelled by exact rationals, so rounding is not modelled, and the one place
  where the code divides (the percent change) writes out division by zero.
  Strings are byte strings: Python's \<^verbatim>\<open>strip\<close> and \<^verbatim>\<open>lower\<close> are modelled on ASCII.
\<close>

record datetime =
  dt_year :: nat
  dt_month :: nat
  dt_day :: nat
  dt_hour :: nat
  dt_minute :: nat
  dt_second :: nat
  dt_microsecond :: nat
  dt_tzinfo :: "int option"

datatype cell = NA | Str string | Num rat | Ts datetime

datatype dtype = ObjectT | NumericT | DatetimeT

record dataframe =
  columns :: "string list"
  dtypes :: "dtype list"
  rows :: "cell list list"

text \<open>
  Three functions of pandas are parameters of the model, since their result depends on
  parsing and formatting rules of the library that the repository does not fix:
  \<^verbatim>\<open>pd.to_datetime(col, errors="coerce")\<close> on a whole column, the number parser behind
  \<^verbatim>\<open>pd.to_numeric(col, errors="coerce")\<close> on one string (\<open>None\<close>: not a number), and
  Python's \<^verbatim>\<open>str\<close> on a non-string object found in an object column. A fourth one is
  the text of a weekly period (\<^verbatim>\<open>dt.to_period("W").astype(str)\<close>), which the aggregation
  stores in a column that no output reads.
\<close>

record library =
  to_datetime :: "cell list \<Rightarrow> cell list"
  to_numeric :: "string \<Rightarrow> rat option"
  to_str :: "cell \<Rightarrow> string"
  period_week :: "datetime \<Rightarrow> string"

datatype error = KeyError | ValueError | TypeError | AttributeError | NotFound

section \<open>Python strings\<close>

definition isspace :: "char \<Rightarrow> bool" where
  "isspace c = (let n = (of_char c :: nat) in (9 \<le> n \<and> n \<le> 13) \<or> (28 \<le> n \<and> n \<le> 32))"

definition strip :: "string \<Rightarrow> string" where
  "strip s = rev (dropWhile isspace (rev (dropWhile isspace s)))"

definition lower_char :: "char \<Rightarrow> char" where
  "lower_char c = (let n = (of_char c :: nat) in if 65 \<le> n \<and> n \<le> 90 then char_of (n + 32) else c)"

definition lower :: "string \<Rightarrow> string" where
  "lower s = map lower_char s"

text \<open>\<^verbatim>\<open>sub in s\<close>: \<open>sub\<close> occurs in \<open>s\<close> as a substring.\<close>

fun contains :: "string \<Rightarrow> string \<Rightarrow> bool" where
  "contains sub [] = (sub = [])"
| "contains sub (c # cs) = (take (length sub) (c # cs) = sub \<or> contains sub cs)"

section \<open>Cleaning stage: \<^verbatim>\<open>transform_dataframe\<close> (flows/silver_transformation.py)\<close>

text \<open>\<^verbatim>\<open>df.dropna(how="all")\<close>: a row goes when every cell of it is missing.\<close>

definition dropna_all :: "dataframe \<Rightarrow> dataframe" where
  "dropna_all df = df\<lparr>rows := filter (\<lambda>r. \<not> list_all (\<lambda>c. c = NA) r) (rows df)\<rparr>"

text \<open>\<^verbatim>\<open>df.columns = [c.strip() for c in df.columns]\<close>\<close>

definition strip_columns :: "dataframe \<Rightarrow> dataframe" where
  "strip_columns df = df\<lparr>columns := map strip (columns df)\<rparr>"

text \<open>
  \<^verbatim>\<open>df[col]\<close> and \<^verbatim>\<open>df[col] = values\<close>, with the column given by its position. The
  header is taken to have no two equal names after stripping (as \<^verbatim>\<open>read_csv\<close> gives
  it, which renames duplicates), so that a name stands for one position.
\<close>

definition get_column :: "nat \<Rightarrow> dataframe \<Rightarrow> cell list" where
  "get_column i df = map (\<lambda>r. r ! i) (rows df)"

definition set_column :: "nat \<Rightarrow> dtype \<Rightarrow> cell list \<Rightarrow> dataframe \<Rightarrow> dataframe" where
  "set_column i t vs df =
     df\<lparr>dtypes := (dtypes df)[i := t], rows := map (\<lambda>(r, v). r[i := v]) (zip (rows df) vs)\<rparr>"

text \<open>
  The three loops of the function have one shape,
  \<^verbatim>\<open>for col in cols: if cond(col): df[col] = body(df[col])\<close>,
  where \<open>cols\<close> is fixed before the loop starts.
\<close>

definition for_columns ::
  "nat list \<Rightarrow> (string \<Rightarrow> bool) \<Rightarrow> dtype \<Rightarrow> (string \<Rightarrow> cell list \<Rightarrow> cell list) \<Rightarrow>
   dataframe \<Rightarrow> dataframe" where
  "for_columns cols cond t body df =
     fold (\<lambda>i d. if cond (columns d ! i)
                  then set_column i t (body (columns d ! i) (get_column i d)) d else d) cols df"

text \<open>\<^verbatim>\<open>df.select_dtypes(include=["object"]).columns\<close>\<close>

definition object_columns :: "dataframe \<Rightarrow> nat list" where
  "object_columns df = filter (\<lambda>i. dtypes df ! i = ObjectT) [0..<length (columns df)]"

definition is_date_column :: "string \<Rightarrow> bool" where
  "is_date_column c = contains ''date'' (lower c)"

definition parse_dates :: "library \<Rightarrow> dataframe \<Rightarrow> dataframe" where
  "parse_dates L df =
     for_columns [0..<length (columns df)] is_date_column DatetimeT (\<lambda>c. to_datetime L) df"

definition is_numeric_column :: "string \<Rightarrow> bool" where
  "is_numeric_column c = (lower c \<in> set [''montant'', ''id_achat'', ''id_client'', ''id_client''])"

definition to_numeric_cell :: "library \<Rightarrow> cell \<Rightarrow> cell" where
  "to_numeric_cell L c =
     (case c of Str s \<Rightarrow> (case to_numeric L s of Some r \<Rightarrow> Num r | None \<Rightarrow> NA)
              | Num r \<Rightarrow> Num r
              | _ \<Rightarrow> NA)"

definition normalize_numeric :: "library \<Rightarrow> dataframe \<Rightarrow> dataframe" where
  "normalize_numeric L df =
     for_columns (object_columns df) is_numeric_column NumericT (\<lambda>c. map (to_numeric_cell L)) df"

definition is_string_column :: "string \<Rightarrow> bool" where
  "is_string_column c =
     list_ex (\<lambda>keyword. contains keyword (lower c)) [''email'', ''nom'', ''produit'', ''pays'']"

text \<open>\<^verbatim>\<open>astype(str)\<close> on one value of an object column: NaN becomes the string "nan".\<close>

definition astype_str :: "library \<Rightarrow> cell \<Rightarrow> string" where
  "astype_str L c = (case c of Str s \<Rightarrow> s | NA \<Rightarrow> ''nan'' | _ \<Rightarrow> to_str L c)"

definition normalize_string_cell :: "library \<Rightarrow> string \<Rightarrow> cell \<Rightarrow> cell" where
  "normalize_string_cell L c v =
     (let s = strip (astype_str L v)
      in Str (if contains ''email'' (lower c) then lower s else s))"

definition normalize_strings :: "library \<Rightarrow> dataframe \<Rightarrow> dataframe" where
  "normalize_strings L df =
     for_columns (object_columns df) is_string_column ObjectT
       (\<lambda>c. map (normalize_string_cell L c)) df"

text \<open>\<^verbatim>\<open>df.drop_duplicates()\<close>: of rows equal in every field, the first one stays.\<close>

fun keep_first :: "'a list \<Rightarrow> 'a list" where
  "keep_first [] = []"
| "keep_first (x # xs) = x # keep_first (filter (\<lambda>y. y \<noteq> x) xs)"

definition drop_duplicates :: "dataframe \<Rightarrow> dataframe" where
  "drop_duplicates df = df\<lparr>rows := keep_first (rows df)\<rparr>"

fun index_of :: "'a \<Rightarrow> 'a list \<Rightarrow> nat" where
  "index_of x [] = 0"
| "index_of x (y # ys) = (if x = y then 0 else Suc (index_of x ys))"

text \<open>\<^verbatim>\<open>if name in df.columns: df = df[df[name].notna()]\<close>\<close>

definition require_id :: "string \<Rightarrow> dataframe \<Rightarrow> dataframe" where
  "require_id name df =
     (if name \<in> set (columns df)
      then df\<lparr>rows := filter (\<lambda>r. r ! index_of name (columns df) \<noteq> NA) (rows df)\<rparr>
      else df)"

definition normalize_frame :: "library \<Rightarrow> dataframe \<Rightarrow> dataframe" where
  "normalize_frame L df =
     normalize_strings L (normalize_numeric L (parse_dates L (strip_columns (dropna_all df))))"

definition transform_dataframe :: "library \<Rightarrow> dataframe \<Rightarrow> dataframe" where
  "transform_dataframe L df =
     require_id ''id_achat'' (require_id ''id_client'' (drop_duplicates (normalize_frame L df)))"

section \<open>Dates and times\<close>

text \<open>
  Python's proleptic Gregorian ordinal (\<^verbatim>\<open>date.toordinal\<close>) and the instant of a
  \<open>datetime\<close> in microseconds. \<open>dt_tzinfo\<close> is the UTC offset in microseconds, \<open>None\<close>
  for a naive value; \<open>utc_micro\<close> reads a naive value as UTC.
\<close>

definition is_leap :: "nat \<Rightarrow> bool" where
  "is_leap y = (y mod 4 = 0 \<and> (y mod 100 \<noteq> 0 \<or> y mod 400 = 0))"

definition days_before_year :: "nat \<Rightarrow> int" where
  "days_before_year y =
     (let p = int y - 1 in p * 365 + p div 4 - p div 100 + p div 400)"

definition days_before_month :: "nat \<Rightarrow> nat \<Rightarrow> int" where
  "days_before_month y m =
     int ([0, 31, 59, 90, 120, 151, 181, 212, 243, 273, 304, 334] ! (m - 1))
       + (if 2 < m \<and> is_leap y then 1 else 0)"

definition ymd2ord :: "nat \<Rightarrow> nat \<Rightarrow> nat \<Rightarrow> int" where
  "ymd2ord y m d = days_before_year y + days_before_month y m + int d"

definition wall_micro :: "datetime \<Rightarrow> int" where
  "wall_micro d =
     (((ymd2ord (dt_year d) (dt_month d) (dt_day d) * 24 + int (dt_hour d)) * 60
        + int (dt_minute d)) * 60 + int (dt_second d)) * 1000000 + int (dt_microsecond d)"

definition utc_micro :: "datetime \<Rightarrow> int" where
  "utc_micro d = wall_micro d - (case dt_tzinfo d of None \<Rightarrow> 0 | Some off \<Rightarrow> off)"

section \<open>Aggregation stage: \<^verbatim>\<open>compute_kpis\<close> (flows/gold_aggregation.py)\<close>

text \<open>\<^verbatim>\<open>df[name]\<close> by name, and \<^verbatim>\<open>df[name] = values\<close>, which adds the column when it is new.\<close>

definition column :: "string \<Rightarrow> dataframe \<Rightarrow> cell list" where
  "column name df = get_column (index_of name (columns df)) df"

definition assign :: "string \<Rightarrow> dtype \<Rightarrow> cell list \<Rightarrow> dataframe \<Rightarrow> dataframe" where
  "assign name t vs df =
     (if name \<in> set (columns df) then set_column (index_of name (columns df)) t vs df
      else \<lparr>columns = columns df @ [name], dtypes = dtypes df @ [t],
             rows = map (\<lambda>(r, v). r @ [v]) (zip (rows df) vs)\<rparr>)"

text \<open>\<^verbatim>\<open>.dt.date\<close> on one value: the day of a timestamp, NaT for NaT.\<close>

definition dt_date :: "cell \<Rightarrow> cell" where
  "dt_date c =
     (case c of
        Ts d \<Rightarrow> Ts \<lparr>dt_year = dt_year d, dt_month = dt_month d, dt_day = dt_day d, dt_hour = 0,
                   dt_minute = 0, dt_second = 0, dt_microsecond = 0, dt_tzinfo = None\<rparr>
      | _ \<Rightarrow> NA)"

definition digit :: "nat \<Rightarrow> char" where
  "digit n = char_of (48 + n mod 10)"

definition two_digits :: "nat \<Rightarrow> string" where
  "two_digits n = [digit (n div 10), digit n]"

definition four_digits :: "nat \<Rightarrow> string" where
  "four_digits n = [digit (n div 1000), digit (n div 100), digit (n div 10), digit n]"

text \<open>
  \<^verbatim>\<open>.dt.to_period("M").astype(str)\<close> on one value: \<^verbatim>\<open>YYYY-MM\<close>, and the string "NaT" for
  NaT. A pandas timestamp has a year of four digits (1677 to 2262).
\<close>

definition period_month :: "cell \<Rightarrow> cell" where
  "period_month c =
     (case c of
        Ts d \<Rightarrow> Str (four_digits (dt_year d) @ ''-'' @ two_digits (dt_month d))
      | _ \<Rightarrow> Str ''NaT'')"

definition period_week_cell :: "library \<Rightarrow> cell \<Rightarrow> cell" where
  "period_week_cell L c = (case c of Ts d \<Rightarrow> Str (period_week L d) | _ \<Rightarrow> Str ''NaT'')"

text \<open>
  The order in which \<^verbatim>\<open>groupby\<close> and \<^verbatim>\<open>sort_values\<close> put the values of a column:
  numbers by value, strings by code point, timestamps by instant.
\<close>

definition cell_key :: "cell \<Rightarrow> nat \<times> rat \<times> string \<times> int" where
  "cell_key c =
     (case c of NA \<Rightarrow> (0, 0, [], 0)
              | Num r \<Rightarrow> (1, r, [], 0)
              | Str s \<Rightarrow> (2, 0, s, 0)
              | Ts d \<Rightarrow> (3, 0, [], utc_micro d))"

text \<open>
  The groups of \<^verbatim>\<open>df.groupby(key)\<close>: the values of the key column, each once, in
  ascending order; a row whose key is missing is in no group (\<^verbatim>\<open>dropna=True\<close>, the
  default).
\<close>

definition group_keys :: "cell list \<Rightarrow> cell list" where
  "group_keys ks = sort_key cell_key (remdups (filter (\<lambda>k. k \<noteq> NA) ks))"

text \<open>\<^verbatim>\<open>df.groupby(key).size()\<close>\<close>

definition groupby_size :: "string \<Rightarrow> dataframe \<Rightarrow> (cell \<times> nat) list" where
  "groupby_size key df =
     (let i = index_of key (columns df)
      in map (\<lambda>k. (k, length (filter (\<lambda>r. r ! i = k) (rows df)))) (group_keys (get_column i df)))"

text \<open>\<^verbatim>\<open>df.groupby(key)[val].sum()\<close>: a missing amount is skipped, the sum of none is 0.\<close>

definition amount :: "cell \<Rightarrow> rat" where
  "amount c = (case c of Num r \<Rightarrow> r | _ \<Rightarrow> 0)"

definition groupby_sum :: "string \<Rightarrow> string \<Rightarrow> dataframe \<Rightarrow> (cell \<times> rat) list" where
  "groupby_sum key val df =
     (let i = index_of key (columns df); j = index_of val (columns df)
      in map (\<lambda>k. (k, sum_list (map (\<lambda>r. amount (r ! j)) (filter (\<lambda>r. r ! i = k) (rows df)))))
           (group_keys (get_column i df)))"

text \<open>
  \<^verbatim>\<open>left.merge(right, left_on=key, right_on=key, how="left")\<close>: every row of \<open>left\<close>, in
  order, once with each row of \<open>right\<close> of the same key, or once with the columns of
  \<open>right\<close> missing when no row of \<open>right\<close> has its key (pandas matches a missing key
  with a missing key). The key column stands once; any other name found on both sides
  gets the suffix \<^verbatim>\<open>_x\<close> on the left and \<^verbatim>\<open>_y\<close> on the right.
\<close>

definition merge_left :: "dataframe \<Rightarrow> dataframe \<Rightarrow> string \<Rightarrow> dataframe" where
  "merge_left left right key =
     (let kl = index_of key (columns left);
          kr = index_of key (columns right);
          others = filter (\<lambda>j. j \<noteq> kr) [0..<length (columns right)]
      in \<lparr>columns =
             map (\<lambda>c. if c \<noteq> key \<and> c \<in> set (columns right) then c @ ''_x'' else c) (columns left)
             @ map (\<lambda>j. if columns right ! j \<in> set (columns left) then columns right ! j @ ''_y''
                         else columns right ! j) others,
           dtypes = dtypes left @ map (\<lambda>j. dtypes right ! j) others,
           rows = concat (map (\<lambda>a.
             (let ms = filter (\<lambda>b. b ! kr = a ! kl) (rows right)
              in if ms = [] then [a @ replicate (length others) NA]
                 else map (\<lambda>b. a @ map (\<lambda>j. b ! j) others) ms)) (rows left))\<rparr>)"

text \<open>
  \<^verbatim>\<open>series.pct_change()\<close> is \<^verbatim>\<open>series / series.shift(1) - 1\<close>: NaN in the first place,
  and IEEE division where the previous value is 0 (an infinity, or NaN for 0/0).
  \<^verbatim>\<open>fillna(0)\<close> then puts 0 for every NaN.
\<close>

datatype pct = Finite rat | PosInf | NegInf

definition ratio_change :: "rat \<Rightarrow> rat \<Rightarrow> pct option" where
  "ratio_change previous current =
     (if previous = 0
      then (if current = 0 then None else if 0 < current then Some PosInf else Some NegInf)
      else Some (Finite (current / previous - 1)))"

fun pct_change :: "rat list \<Rightarrow> pct option list" where
  "pct_change [] = []"
| "pct_change (r # rs) = None # map (\<lambda>(previous, current). ratio_change previous current) (zip (r # rs) rs)"

definition fillna0 :: "pct option \<Rightarrow> pct" where
  "fillna0 p = (case p of None \<Rightarrow> Finite 0 | Some v \<Rightarrow> v)"

record kpis =
  volumes_day :: "(cell \<times> nat) list"
  volumes_month :: "(cell \<times> nat) list"
  ca_by_country :: "(cell \<times> rat) list"
  monthly_revenue :: "(cell \<times> rat \<times> pct) list"

text \<open>
  The frame \<^verbatim>\<open>achats\<close> once the columns day, month and week are set. The three reads of
  \<^verbatim>\<open>achats["date_achat"]\<close> give one column, since the assignments between them write
  other columns.
\<close>

definition with_periods :: "library \<Rightarrow> dataframe \<Rightarrow> dataframe" where
  "with_periods L achats =
     (let a1 = assign ''date_achat'' DatetimeT (to_datetime L (column ''date_achat'' achats)) achats;
          dates = column ''date_achat'' a1
      in assign ''week'' ObjectT (map (period_week_cell L) dates)
           (assign ''month'' ObjectT (map period_month dates)
             (assign ''day'' ObjectT (map dt_date dates) a1)))"

definition joined_frame :: "library \<Rightarrow> dataframe \<Rightarrow> dataframe \<Rightarrow> dataframe" where
  "joined_frame L clients achats = merge_left (with_periods L achats) clients ''id_client''"

text \<open>\<^verbatim>\<open>rev_month.sort_values("month")\<close>, then the column \<^verbatim>\<open>pct_change\<close>.\<close>

definition revenue_growth :: "(cell \<times> rat) list \<Rightarrow> (cell \<times> rat \<times> pct) list" where
  "revenue_growth rev_month =
     (let sorted_rev = sort_key (\<lambda>(m, r). cell_key m) rev_month
      in map (\<lambda>((m, r), p). (m, r, fillna0 p)) (zip sorted_rev (pct_change (map snd sorted_rev))))"

text \<open>
  An exception of pandas is an error value: \<open>KeyError\<close> for a column that is not there
  (\<^verbatim>\<open>achats["date_achat"]\<close>, the merge key, \<^verbatim>\<open>pays\<close>, \<^verbatim>\<open>montant\<close> or \<^verbatim>\<open>month\<close> after the
  merge, where a name found on both sides has been renamed), \<open>ValueError\<close> for a merge
  on key columns of different kinds. A sum over a column that is not numeric is outside
  the model, which stops there with \<open>TypeError\<close>.
\<close>

definition compute_kpis :: "library \<Rightarrow> dataframe \<Rightarrow> dataframe \<Rightarrow> error + kpis" where
  "compute_kpis L clients achats =
     (if ''date_achat'' \<notin> set (columns achats) then Inl KeyError
      else
        let a = with_periods L achats in
        if ''id_client'' \<notin> set (columns a) \<or> ''id_client'' \<notin> set (columns clients)
        then Inl KeyError
        else if dtypes a ! index_of ''id_client'' (columns a)
                \<noteq> dtypes clients ! index_of ''id_client'' (columns clients)
        then Inl ValueError
        else
          let joined = merge_left a clients ''id_client'' in
          if ''pays'' \<notin> set (columns joined) \<or> ''montant'' \<notin> set (columns joined)
             \<or> ''month'' \<notin> set (columns joined)
          then Inl KeyError
          else if dtypes joined ! index_of ''montant'' (columns joined) \<noteq> NumericT
          then Inl TypeError
          else Inr \<lparr>volumes_day = groupby_size ''day'' a,
                    volumes_month = groupby_size ''month'' a,
                    ca_by_country = groupby_sum ''pays'' ''montant'' joined,
                    monthly_revenue = revenue_growth (groupby_sum ''month'' ''montant'' joined)\<rparr>)"

section \<open>Publication stage: \<^verbatim>\<open>write_df_to_mongo\<close> (flows/gold_to_mongo.py)\<close>

text \<open>
  The store is one database: a collection name gives the documents of the collection,
  in order (none for a collection that does not exist). A document is a list of fields.
  The \<^verbatim>\<open>_id\<close> that the store adds to a document is not modelled.
\<close>

datatype bson = BNone | BNaN | BStr string | BNum rat | BDate datetime
  | BDoc "(string \<times> bson) list"

type_synonym document = "(string \<times> bson) list"

type_synonym database = "string \<Rightarrow> document list"

definition empty_df :: "dataframe \<Rightarrow> bool" where
  "empty_df df = (columns df = [] \<or> rows df = [])"

text \<open>
  \<^verbatim>\<open>df.replace({pd.NaT: None}).to_dict(orient="records")\<close>: one document per row; a
  missing value becomes None, but stays NaN in a numeric column.
\<close>

definition cell_to_bson :: "dtype \<Rightarrow> cell \<Rightarrow> bson" where
  "cell_to_bson t c =
     (case c of NA \<Rightarrow> (if t = NumericT then BNaN else BNone)
              | Str s \<Rightarrow> BStr s
              | Num r \<Rightarrow> BNum r
              | Ts d \<Rightarrow> BDate d)"

definition to_dict_records :: "dataframe \<Rightarrow> document list" where
  "to_dict_records df =
     map (\<lambda>r. zip (columns df) (map (\<lambda>(t, c). cell_to_bson t c) (zip (dtypes df) r))) (rows df)"

definition delete_many :: "string \<Rightarrow> database \<Rightarrow> database" where
  "delete_many name db = db(name := [])"

definition insert_many :: "string \<Rightarrow> document list \<Rightarrow> database \<Rightarrow> database" where
  "insert_many name docs db = db(name := db name @ docs)"

text \<open>\<^verbatim>\<open>{"$set": fields}\<close> on one document.\<close>

fun set_field :: "string \<Rightarrow> bson \<Rightarrow> document \<Rightarrow> document" where
  "set_field k v [] = [(k, v)]"
| "set_field k v ((k', v') # d) = (if k = k' then (k, v) # d else (k', v') # set_field k v d)"

definition set_fields :: "document \<Rightarrow> document \<Rightarrow> document" where
  "set_fields upd d = fold (\<lambda>(k, v). set_field k v) upd d"

text \<open>The query \<^verbatim>\<open>{"collection": name}\<close>.\<close>

definition matches_collection :: "string \<Rightarrow> document \<Rightarrow> bool" where
  "matches_collection name d = (map_of d ''collection'' = Some (BStr name))"

text \<open>
  \<^verbatim>\<open>update_one({"collection": name}, {"$set": fields}, upsert=True)\<close>: the first document
  that matches is updated; when none matches, a document made of the query and the
  fields is inserted.
\<close>

fun update_one_upsert :: "string \<Rightarrow> document \<Rightarrow> document list \<Rightarrow> document list" where
  "update_one_upsert name upd [] = [set_fields upd [(''collection'', BStr name)]]"
| "update_one_upsert name upd (d # ds) =
     (if matches_collection name d then set_fields upd d # ds
      else d # update_one_upsert name upd ds)"

text \<open>\<^verbatim>\<open>metadata.get("last_modified")\<close>\<close>

definition dict_get :: "document \<Rightarrow> string \<Rightarrow> bson" where
  "dict_get d k = (case map_of d k of None \<Rightarrow> BNone | Some v \<Rightarrow> v)"

definition ingest_meta :: "string \<Rightarrow> string \<Rightarrow> document \<Rightarrow> document" where
  "ingest_meta collection_name now_iso metadata =
     [(''collection'', BStr collection_name),
      (''ingest_time'', BStr now_iso),
      (''source_info'', BDoc (set_field ''last_modified'' (dict_get metadata ''last_modified'') metadata))]"

text \<open>
  \<open>isoformat\<close> is Python's \<^verbatim>\<open>datetime.isoformat\<close> and \<open>now\<close> the reading of the clock,
  \<^verbatim>\<open>datetime.now(timezone.utc)\<close>.
\<close>

definition write_df_to_mongo ::
  "(datetime \<Rightarrow> string) \<Rightarrow> datetime \<Rightarrow> dataframe \<Rightarrow> string \<Rightarrow> document \<Rightarrow> database \<Rightarrow> database" where
  "write_df_to_mongo isoformat now df collection_name metadata db =
     (let db1 = (if \<not> empty_df df
                 then insert_many collection_name (to_dict_records df) (delete_many collection_name db)
                 else delete_many collection_name db);
          meta = ingest_meta collection_name (isoformat now) metadata
      in db1(''ingest_metadata'' := update_one_upsert collection_name meta (db1 ''ingest_metadata'')))"

section \<open>Freshness resolver: \<^verbatim>\<open>get_metadata\<close> (app/api.py)\<close>

record refresh_info =
  collection :: string
  source_last_modified :: bson
  ingest_time :: bson
  delta_source_to_ingest_seconds :: "rat option"
  delta_ingest_to_now_seconds :: "rat option"

text \<open>\<^verbatim>\<open>find_one({"collection": name})\<close>: the first document that matches.\<close>

definition find_one :: "string \<Rightarrow> document list \<Rightarrow> document option" where
  "find_one name docs = List.find (matches_collection name) docs"

text \<open>\<^verbatim>\<open>meta.get("source_info", {}).get("last_modified")\<close>\<close>

definition source_last_modified_of :: "document \<Rightarrow> error + bson" where
  "source_last_modified_of meta =
     (case map_of meta ''source_info'' of
        None \<Rightarrow> Inr BNone
      | Some (BDoc info) \<Rightarrow> Inr (dict_get info ''last_modified'')
      | Some _ \<Rightarrow> Inl AttributeError)"

text \<open>The inner function \<^verbatim>\<open>_to_dt\<close>; \<open>fromisoformat\<close> gives \<open>None\<close> where Python raises.\<close>

definition to_dt :: "(string \<Rightarrow> datetime option) \<Rightarrow> bson \<Rightarrow> bson" where
  "to_dt fromisoformat v =
     (case v of
        BNone \<Rightarrow> BNone
      | BStr s \<Rightarrow> (case fromisoformat s of Some d \<Rightarrow> BDate d | None \<Rightarrow> BNone)
      | _ \<Rightarrow> v)"

text \<open>Python's truth value of what \<^verbatim>\<open>_to_dt\<close> returns.\<close>

definition truthy :: "bson \<Rightarrow> bool" where
  "truthy v =
     (case v of BNone \<Rightarrow> False | BNaN \<Rightarrow> True | BStr s \<Rightarrow> s \<noteq> [] | BNum r \<Rightarrow> r \<noteq> 0
              | BDate d \<Rightarrow> True | BDoc d \<Rightarrow> d \<noteq> [])"

text \<open>
  \<^verbatim>\<open>if dt and dt.tzinfo is None: dt = dt.replace(tzinfo=timezone.utc)\<close>. Reading
  \<^verbatim>\<open>tzinfo\<close> on a value that is true and no datetime raises; \<open>None\<close> in the result
  stands for a value that is not true.
\<close>

definition normalize_utc :: "bson \<Rightarrow> error + datetime option" where
  "normalize_utc v =
     (if \<not> truthy v then Inr None
      else case v of
             BDate d \<Rightarrow> Inr (Some (if dt_tzinfo d = None then d\<lparr>dt_tzinfo := Some 0\<rparr> else d))
           | _ \<Rightarrow> Inl AttributeError)"

text \<open>
  \<^verbatim>\<open>a - b\<close> of two datetimes, in microseconds. Python subtracts two values without
  timezone by their wall clocks and two values with a timezone by their instants, and
  raises TypeError when only one of them has a timezone.
\<close>

definition datetime_sub :: "datetime \<Rightarrow> datetime \<Rightarrow> error + int" where
  "datetime_sub a b =
     (case (dt_tzinfo a, dt_tzinfo b) of
        (None, None) \<Rightarrow> Inr (wall_micro a - wall_micro b)
      | (Some oa, Some ob) \<Rightarrow> Inr ((wall_micro a - oa) - (wall_micro b - ob))
      | _ \<Rightarrow> Inl TypeError)"

text \<open>\<^verbatim>\<open>timedelta.total_seconds()\<close>\<close>

definition total_seconds :: "int \<Rightarrow> rat" where
  "total_seconds micro = of_int micro / 1000000"

text \<open>
  \<^verbatim>\<open>(now - ing_dt).total_seconds()\<close>, where \<open>now\<close> is the instant of
  \<^verbatim>\<open>datetime.now(timezone.utc)\<close> in microseconds: a value that always has a timezone, so
  the subtraction raises when \<open>ing_dt\<close> has none.
\<close>

definition seconds_until :: "int \<Rightarrow> datetime \<Rightarrow> error + rat" where
  "seconds_until now d =
     (case dt_tzinfo d of
        None \<Rightarrow> Inl TypeError
      | Some off \<Rightarrow> Inr (total_seconds (now - (wall_micro d - off))))"

text \<open>\<^verbatim>\<open>if src_dt and ing_dt: delta_src_ing = (ing_dt - src_dt).total_seconds()\<close>\<close>

definition delta_src_ing :: "datetime option \<Rightarrow> datetime option \<Rightarrow> error + rat option" where
  "delta_src_ing src_dt ing_dt =
     (case (src_dt, ing_dt) of
        (Some s, Some i) \<Rightarrow>
          (case datetime_sub i s of Inl e \<Rightarrow> Inl e | Inr micro \<Rightarrow> Inr (Some (total_seconds micro)))
      | _ \<Rightarrow> Inr None)"

text \<open>\<^verbatim>\<open>if ing_dt: delta_ing_now = (now - ing_dt).total_seconds()\<close>\<close>

definition delta_ing_now :: "int \<Rightarrow> datetime option \<Rightarrow> error + rat option" where
  "delta_ing_now now ing_dt =
     (case ing_dt of
        Some i \<Rightarrow> (case seconds_until now i of Inl e \<Rightarrow> Inl e | Inr sec \<Rightarrow> Inr (Some sec))
      | None \<Rightarrow> Inr None)"

definition get_metadata ::
  "(string \<Rightarrow> datetime option) \<Rightarrow> int \<Rightarrow> database \<Rightarrow> string \<Rightarrow> error + refresh_info" where
  "get_metadata fromisoformat now db name =
     (case find_one name (db ''ingest_metadata'') of
        None \<Rightarrow> Inl NotFound
      | Some meta \<Rightarrow>
          if meta = [] then Inl NotFound
          else
            (case source_last_modified_of meta of
               Inl e \<Rightarrow> Inl e
             | Inr source_lm \<Rightarrow>
                 let ingest = dict_get meta ''ingest_time'' in
                 (case normalize_utc (to_dt fromisoformat source_lm) of
                    Inl e \<Rightarrow> Inl e
                  | Inr src_dt \<Rightarrow>
                      (case normalize_utc (to_dt fromisoformat ingest) of
                         Inl e \<Rightarrow> Inl e
                       | Inr ing_dt \<Rightarrow>
                           (case delta_src_ing src_dt ing_dt of
                              Inl e \<Rightarrow> Inl e
                            | Inr d1 \<Rightarrow>
                                (case delta_ing_now now ing_dt of
                                   Inl e \<Rightarrow> Inl e
                                 | Inr d2 \<Rightarrow>
                                     Inr \<lparr>collection = name,
                                          source_last_modified = source_lm,
                                          ingest_time = ingest,
                                          delta_source_to_ingest_seconds = d1,
                                          delta_ingest_to_now_seconds = d2\<rparr>))))))"

section \<open>The freshness claim in its own words\<close>





definition stored_last_modified :: "document \<Rightarrow> bson" where
  "stored_last_modified meta =
     (case map_of meta ''source_info'' of
        Some (BDoc info) \<Rightarrow> (case map_of info ''last_modified'' of None \<Rightarrow> BNone | Some v \<Rightarrow> v)
      | _ \<Rightarrow> BNone)"

definition stored_ingest_time :: "document \<Rightarrow> bson" where
  "stored_ingest_time meta = (case map_of meta ''ingest_time'' of None \<Rightarrow> BNone | Some v \<Rightarrow> v)"



text \<open>What is read back from a collection after the publication of a table.\<close>

definition table_records :: "dataframe \<Rightarrow> document list" where
  "table_records df = (if empty_df df then [] else to_dict_records df)"


section \<open>Well-formed frames and the assumptions on pandas\<close>

text \<open>
  A frame as \<^verbatim>\<open>read_csv\<close> gives it: one dtype per column, every row as long as the
  header, and no two names equal after stripping.
\<close>

definition wf_frame :: "dataframe \<Rightarrow> bool" where
  "wf_frame df =
     (length (dtypes df) = length (columns df)
      \<and> list_all (\<lambda>r. length r = length (columns df)) (rows df)
      \<and> distinct (map strip (columns df)))"

definition is_timestamp :: "cell \<Rightarrow> bool" where
  "is_timestamp c = (case c of NA \<Rightarrow> True | Ts d \<Rightarrow> True | _ \<Rightarrow> False)"

text \<open>
  What the theorems use of \<^verbatim>\<open>pd.to_datetime(col, errors="coerce")\<close>: the result has one
  value per value of the column, each a timestamp or NaT, and a column that holds
  timestamps and NaT only (dtype datetime64) comes back as it is.
\<close>

definition library_ok :: "library \<Rightarrow> bool" where
  "library_ok L =
     ((\<forall>cs. length (to_datetime L cs) = length cs \<and> list_all is_timestamp (to_datetime L cs))
      \<and> (\<forall>cs. list_all is_timestamp cs \<longrightarrow> to_datetime L cs = cs))"

section \<open>Notions used in the statements\<close>

text \<open>Every row of the frame has \<open>n\<close> cells.\<close>

definition rect :: "nat \<Rightarrow> dataframe \<Rightarrow> bool" where
  "rect n df = list_all (\<lambda>r. length r = n) (rows df)"

text \<open>
  What the three loops of \<^verbatim>\<open>transform_dataframe\<close> make of one column, given its stripped
  name, its dtype and its values, and the dtype they leave it with (proved below:
  \<open>normalize_frame_props\<close>).
\<close>

definition norm_col :: "library \<Rightarrow> string \<Rightarrow> dtype \<Rightarrow> cell list \<Rightarrow> cell list" where
  "norm_col L c t cs =
     (if is_date_column c then to_datetime L cs
      else if t = ObjectT \<and> is_numeric_column c then map (to_numeric_cell L) cs
      else if t = ObjectT \<and> is_string_column c then map (normalize_string_cell L c) cs
      else cs)"

definition norm_dtype :: "string \<Rightarrow> dtype \<Rightarrow> dtype" where
  "norm_dtype c t =
     (if is_date_column c then DatetimeT
      else if t = ObjectT \<and> is_numeric_column c then NumericT
      else t)"

text \<open>A row with a value in one field at least.\<close>

definition has_value :: "cell list \<Rightarrow> bool" where
  "has_value r = list_ex (\<lambda>c. c \<noteq> NA) r"



section \<open>An instance of the library, for the examples\<close>

text \<open>
  The examples run the model on an instance of the parameters that agrees with pandas
  and Python on the values the examples hold: plain decimal numbers
  (\<^verbatim>\<open>49.99\<close>), days written \<^verbatim>\<open>YYYY-MM-DD\<close>, instants written
  \<^verbatim>\<open>YYYY-MM-DDTHH:MM:SS\<close> alone or followed by \<^verbatim>\<open>+00:00\<close> or \<^verbatim>\<open>Z\<close> (which Python reads as
  UTC from version 3.11 on), and text that is none of these.
\<close>

definition is_digit :: "char \<Rightarrow> bool" where
  "is_digit c = (let n = (of_char c :: nat) in 48 \<le> n \<and> n \<le> 57)"

definition nat_of_digits :: "string \<Rightarrow> nat" where
  "nat_of_digits s = foldl (\<lambda>n c. 10 * n + ((of_char c :: nat) - 48)) 0 s"

definition parse_decimal :: "string \<Rightarrow> rat option" where
  "parse_decimal s =
     (let a = takeWhile (\<lambda>c. c \<noteq> CHR ''.'') s;
          b = drop 1 (dropWhile (\<lambda>c. c \<noteq> CHR ''.'') s)
      in if a \<noteq> [] \<and> list_all is_digit (a @ b) \<and> (b \<noteq> [] \<or> CHR ''.'' \<notin> set s)
         then Some (of_nat (nat_of_digits (a @ b)) / 10 ^ length b)
         else None)"

definition days_in_month :: "nat \<Rightarrow> nat \<Rightarrow> nat" where
  "days_in_month y m =
     (if m = 2 \<and> is_leap y then 29 else [31, 28, 31, 30, 31, 30, 31, 31, 30, 31, 30, 31] ! (m - 1))"

definition parse_ymd :: "string \<Rightarrow> (nat \<times> nat \<times> nat) option" where
  "parse_ymd s =
     (if length s = 10 \<and> s ! 4 = CHR ''-'' \<and> s ! 7 = CHR ''-''
         \<and> list_all is_digit (take 4 s @ take 2 (drop 5 s) @ drop 8 s)
      then
        (let y = nat_of_digits (take 4 s); m = nat_of_digits (take 2 (drop 5 s));
             d = nat_of_digits (drop 8 s)
         in if 1 \<le> y \<and> 1 \<le> m \<and> m \<le> 12 \<and> 1 \<le> d \<and> d \<le> days_in_month y m
            then Some (y, m, d) else None)
      else None)"


definition midnight :: "nat \<Rightarrow> nat \<Rightarrow> nat \<Rightarrow> datetime" where
  "midnight y m d =
     \<lparr>dt_year = y, dt_month = m, dt_day = d, dt_hour = 0, dt_minute = 0, dt_second = 0,
      dt_microsecond = 0, dt_tzinfo = None\<rparr>"

definition example_to_datetime :: "cell \<Rightarrow> cell" where
  "example_to_datetime c =
     (case c of
        Ts d \<Rightarrow> Ts d
      | Str s \<Rightarrow> (case parse_ymd s of Some (y, m, d) \<Rightarrow> Ts (midnight y m d) | None \<Rightarrow> NA)
      | _ \<Rightarrow> NA)"

definition example_library :: library where
  "example_library =
     \<lparr>to_datetime = map example_to_datetime, to_numeric = parse_decimal,
      to_str = (\<lambda>c. []), period_week = (\<lambda>d. [])\<rparr>"


definition example_isoformat :: "datetime \<Rightarrow> string" where
  "example_isoformat d =
     four_digits (dt_year d) @ ''-'' @ two_digits (dt_month d) @ ''-'' @ two_digits (dt_day d)
       @ ''T'' @ two_digits (dt_hour d) @ '':'' @ two_digits (dt_minute d) @ '':''
       @ two_digits (dt_second d) @ (if dt_tzinfo d = Some 0 then ''+00:00'' else [])"

definition example_now :: datetime where
  "example_now =
     \<lparr>dt_year = 2024, dt_month = 1, dt_day = 1, dt_hour = 0, dt_minute = 10, dt_second = 0,
      dt_microsecond = 0, dt_tzinfo = Some 0\<rparr>"

definition example_volumes :: dataframe where
  "example_volumes =
     \<lparr>columns = [''month'', ''volume''], dtypes = [ObjectT, NumericT],
      rows = [[Str ''2024-03'', Num 1]]\<rparr>"

definition example_volumes2 :: dataframe where
  "example_volumes2 =
     \<lparr>columns = [''month'', ''volume''], dtypes = [ObjectT, NumericT],
      rows = [[Str ''2024-03'', Num 2], [Str ''2024-04'', Num 5]]\<rparr>"

definition example_collection_table :: dataframe where
  "example_collection_table =
     \<lparr>columns = [''collection''], dtypes = [ObjectT],
      rows = [[Str ''volumes_month''], [Str ''volumes_month'']]\<rparr>"

definition example_metadata :: document where
  "example_metadata =
     [(''object_name'', BStr ''volumes_month.csv''), (''last_modified'', BDate (midnight 2024 1 1))]"




text \<open>
  A purchase extract with a missing purchase id and a client id that is no number; a
  client extract with a missing email and country; a client extract whose column
  \<^verbatim>\<open>pays\<close> holds no value, and is read as a column of numbers; an extract without
  identifiers, with a row where nothing parses.
\<close>

definition example_purchases :: dataframe where
  "example_purchases =
     \<lparr>columns = [''id_achat'', '' id_client'', ''montant''], dtypes = [NumericT, ObjectT, ObjectT],
      rows = [[Num 1, Str ''1'', Str ''7''], [NA, Str ''1'', Str ''5''],
              [Num 2, Str ''x'', Str ''5'']]\<rparr>"



definition example_prices_raw :: dataframe where
  "example_prices_raw =
     \<lparr>columns = [''date_maj'', ''montant''], dtypes = [ObjectT, ObjectT],
      rows = [[Str ''2024-03-05'', Str ''7''], [Str ''inconnu'', Str ''gratuit'']]\<rparr>"

section \<open>Properties of the cleaning stage\<close>

lemma distinct_keep_first: "distinct (keep_first xs)"
proof (induction xs rule: keep_first.induct)
  case 1
  show ?case by simp
next
  case (2 x xs)
  have "set (keep_first ys) = set ys" for ys :: "'a list"
    by (induction ys rule: keep_first.induct) auto
  with 2 show ?case by simp
qed

lemma distinct_rows_require_id: "distinct (rows df) \<Longrightarrow> distinct (rows (require_id name df))"
  by (simp add: require_id_def)

text \<open>
  C7. Whatever the raw extract, no two rows of the cleaned table are equal in every
  field: the rows of the result are pairwise different.
\<close>

theorem cleaned_rows_distinct: "distinct (rows (transform_dataframe L df))"
  unfolding transform_dataframe_def
  by (intro distinct_rows_require_id) (simp add: drop_duplicates_def distinct_keep_first)

lemma columns_set_column: "columns (set_column i t vs df) = columns df"
  by (simp add: set_column_def)

lemma rect_set_column: "rect n df \<Longrightarrow> rect n (set_column i t vs df)"
  by (auto simp: rect_def set_column_def list_all_iff dest: set_zip_leftD)

lemma length_rows_set_column:
  "length vs = length (rows df) \<Longrightarrow> length (rows (set_column i t vs df)) = length (rows df)"
  by (simp add: set_column_def)

lemma get_column_set_column:
  assumes "length vs = length (rows df)" "rect n df" "i < n"
  shows "get_column j (set_column i t vs df) = (if j = i then vs else get_column j df)"
proof -
  have "map (\<lambda>(r, v). r[i := v] ! j) (zip rs vs) = (if j = i then vs else map (\<lambda>r. r ! j) rs)"
    if "length vs = length rs" "list_all (\<lambda>r. length r = n) rs" for rs
    using that assms(3)
    by (induction rs vs rule: list_induct2') auto
  from this [OF assms(1)] assms(2) show ?thesis
    by (simp add: get_column_def set_column_def rect_def case_prod_unfold comp_def)
qed

lemma dtypes_set_column: "dtypes (set_column i t vs df) = (dtypes df)[i := t]"
  by (simp add: set_column_def)

lemma columns_for_columns: "columns (for_columns cols cond t body df) = columns df"
  unfolding for_columns_def
  by (induction cols arbitrary: df) (simp_all add: columns_set_column)

lemma for_columns_Nil: "for_columns [] cond t body df = df"
  by (simp add: for_columns_def)

lemma for_columns_Cons:
  "for_columns (i # cols) cond t body df =
     for_columns cols cond t body
       (if cond (columns df ! i) then set_column i t (body (columns df ! i) (get_column i df)) df else df)"
  by (simp add: for_columns_def)

lemma for_columns_props:
  assumes len: "\<And>c cs. length (body c cs) = length cs"
  shows "rect n df \<Longrightarrow> set cols \<subseteq> {..<n} \<Longrightarrow> distinct cols \<Longrightarrow>
    rect n (for_columns cols cond t body df)
    \<and> length (rows (for_columns cols cond t body df)) = length (rows df)
    \<and> (\<forall>j. get_column j (for_columns cols cond t body df) =
          (if j \<in> set cols \<and> cond (columns df ! j) then body (columns df ! j) (get_column j df)
           else get_column j df))
    \<and> (\<forall>j < length (dtypes df). dtypes (for_columns cols cond t body df) ! j =
          (if j \<in> set cols \<and> cond (columns df ! j) then t else dtypes df ! j))
    \<and> length (dtypes (for_columns cols cond t body df)) = length (dtypes df)"
proof (induction cols arbitrary: df)
  case Nil
  then show ?case by (simp add: for_columns_Nil)
next
  case (Cons i cols)
  let ?vs = "body (columns df ! i) (get_column i df)"
  let ?d = "if cond (columns df ! i) then set_column i t ?vs df else df"
  have lv: "length ?vs = length (rows df)" by (simp add: len get_column_def)
  have r: "rect n ?d" using Cons.prems(1) by (simp add: rect_set_column)
  have i: "i < n" "i \<notin> set cols" using Cons.prems(2,3) by auto
  have IH: "rect n (for_columns cols cond t body ?d)
    \<and> length (rows (for_columns cols cond t body ?d)) = length (rows ?d)
    \<and> (\<forall>j. get_column j (for_columns cols cond t body ?d) =
          (if j \<in> set cols \<and> cond (columns ?d ! j) then body (columns ?d ! j) (get_column j ?d)
           else get_column j ?d))
    \<and> (\<forall>j < length (dtypes ?d). dtypes (for_columns cols cond t body ?d) ! j =
          (if j \<in> set cols \<and> cond (columns ?d ! j) then t else dtypes ?d ! j))
    \<and> length (dtypes (for_columns cols cond t body ?d)) = length (dtypes ?d)"
    using Cons.IH [OF r] Cons.prems(2,3) by simp
  have cd: "columns ?d = columns df" by (simp add: columns_set_column)
  have gc: "get_column j ?d = (if j = i \<and> cond (columns df ! i) then ?vs else get_column j df)" for j
    using get_column_set_column [OF lv Cons.prems(1) i(1)] by simp
  have lr: "length (rows ?d) = length (rows df)"
    using length_rows_set_column [OF lv] by simp
  have dt: "dtypes ?d = (if cond (columns df ! i) then (dtypes df)[i := t] else dtypes df)"
    by (simp add: dtypes_set_column)
  show ?case
  proof (cases "cond (columns df ! i)")
    case True
    have ne: "(dtypes df)[i := t] ! j = dtypes df ! j" if "\<not> cond (columns df ! j)" for j
      using that True by (cases "j = i") auto
    show ?thesis
      unfolding for_columns_Cons
      using IH i True ne unfolding cd gc lr dt
      by (auto simp: nth_list_update)
  next
    case False
    show ?thesis
      unfolding for_columns_Cons
      using IH i False unfolding cd gc lr dt
      by auto
  qed
qed

lemma library_ok_length: "library_ok L \<Longrightarrow> length (to_datetime L cs) = length cs"
  by (simp add: library_ok_def)

lemma library_ok_timestamps: "library_ok L \<Longrightarrow> list_all is_timestamp (to_datetime L cs)"
  by (simp add: library_ok_def)

lemma library_ok_id: "library_ok L \<Longrightarrow> list_all is_timestamp cs \<Longrightarrow> to_datetime L cs = cs"
  by (simp add: library_ok_def)

lemma wf_frame_rect: "wf_frame df \<Longrightarrow> rect (length (columns df)) df"
  by (simp add: wf_frame_def rect_def)

lemma rect_dropna: "rect n df \<Longrightarrow> rect n (strip_columns (dropna_all df))"
  by (auto simp: rect_def strip_columns_def dropna_all_def list_all_iff)

lemma get_column_strip_columns: "get_column j (strip_columns df) = get_column j df"
  by (simp add: get_column_def strip_columns_def)

lemma object_columns_props:
  "distinct (object_columns df)"
  "set (object_columns df) = {i. i < length (columns df) \<and> dtypes df ! i = ObjectT}"
  by (auto simp: object_columns_def)

lemma normalize_frame_props:
  assumes wf: "wf_frame df" and ok: "library_ok L"
  defines "n \<equiv> length (columns df)"
  shows "columns (normalize_frame L df) = map strip (columns df)"
    and "rect n (normalize_frame L df)"
    and "length (rows (normalize_frame L df)) = length (rows (dropna_all df))"
    and "length (dtypes (normalize_frame L df)) = n"
    and "j < n \<Longrightarrow> dtypes (normalize_frame L df) ! j = norm_dtype (strip (columns df ! j)) (dtypes df ! j)"
    and "j < n \<Longrightarrow> get_column j (normalize_frame L df)
           = norm_col L (strip (columns df ! j)) (dtypes df ! j) (get_column j (dropna_all df))"
proof -
  let ?d0 = "strip_columns (dropna_all df)"
  let ?d1 = "parse_dates L ?d0"
  let ?d2 = "normalize_numeric L ?d1"
  let ?d3 = "normalize_strings L ?d2"
  have c0: "columns ?d0 = map strip (columns df)" and t0: "dtypes ?d0 = dtypes df"
    by (simp_all add: strip_columns_def dropna_all_def)
  have lt: "length (dtypes df) = n" using wf by (simp add: wf_frame_def n_def)
  have r0: "rect n ?d0" using wf_frame_rect [OF wf] rect_dropna by (simp add: n_def)
  have l0: "length (columns ?d0) = n" by (simp add: c0 n_def)
  have p1: "rect n ?d1 \<and> length (rows ?d1) = length (rows ?d0)
    \<and> (\<forall>j. get_column j ?d1 =
          (if j \<in> set [0..<n] \<and> is_date_column (columns ?d0 ! j) then to_datetime L (get_column j ?d0)
           else get_column j ?d0))
    \<and> (\<forall>j < length (dtypes ?d0). dtypes ?d1 ! j =
          (if j \<in> set [0..<n] \<and> is_date_column (columns ?d0 ! j) then DatetimeT else dtypes ?d0 ! j))
    \<and> length (dtypes ?d1) = length (dtypes ?d0)"
    unfolding parse_dates_def l0
    by (rule for_columns_props [OF _ r0]) (auto simp: library_ok_length [OF ok])
  have c1: "columns ?d1 = columns ?d0" by (simp add: parse_dates_def columns_for_columns)
  have l1: "length (columns ?d1) = n" by (simp add: c1 l0)
  have p2: "rect n ?d2 \<and> length (rows ?d2) = length (rows ?d1)
    \<and> (\<forall>j. get_column j ?d2 =
          (if j \<in> set (object_columns ?d1) \<and> is_numeric_column (columns ?d1 ! j)
           then map (to_numeric_cell L) (get_column j ?d1) else get_column j ?d1))
    \<and> (\<forall>j < length (dtypes ?d1). dtypes ?d2 ! j =
          (if j \<in> set (object_columns ?d1) \<and> is_numeric_column (columns ?d1 ! j) then NumericT
           else dtypes ?d1 ! j))
    \<and> length (dtypes ?d2) = length (dtypes ?d1)"
    unfolding normalize_numeric_def
    by (rule for_columns_props) (use p1 l1 in \<open>auto simp: object_columns_props\<close>)
  have c2: "columns ?d2 = columns ?d1" by (simp add: normalize_numeric_def columns_for_columns)
  have l2: "length (columns ?d2) = n" by (simp add: c2 l1)
  have p3: "rect n ?d3 \<and> length (rows ?d3) = length (rows ?d2)
    \<and> (\<forall>j. get_column j ?d3 =
          (if j \<in> set (object_columns ?d2) \<and> is_string_column (columns ?d2 ! j)
           then map (normalize_string_cell L (columns ?d2 ! j)) (get_column j ?d2) else get_column j ?d2))
    \<and> (\<forall>j < length (dtypes ?d2). dtypes ?d3 ! j =
          (if j \<in> set (object_columns ?d2) \<and> is_string_column (columns ?d2 ! j) then ObjectT
           else dtypes ?d2 ! j))
    \<and> length (dtypes ?d3) = length (dtypes ?d2)"
    unfolding normalize_strings_def
    by (rule for_columns_props) (use p2 l2 in \<open>auto simp: object_columns_props\<close>)
  have c3: "columns ?d3 = columns ?d2" by (simp add: normalize_strings_def columns_for_columns)
  have nf: "normalize_frame L df = ?d3" by (simp add: normalize_frame_def)
  show "columns (normalize_frame L df) = map strip (columns df)"
    by (simp add: nf c3 c2 c1 c0)
  show "rect n (normalize_frame L df)" using p3 by (simp add: nf)
  show "length (rows (normalize_frame L df)) = length (rows (dropna_all df))"
    using p1 p2 p3 by (simp add: nf strip_columns_def)
  show "length (dtypes (normalize_frame L df)) = n"
    using p1 p2 p3 by (simp add: nf t0 lt)
  {
    assume j: "j < n"
    have cj: "columns ?d0 ! j = strip (columns df ! j)" using j by (simp add: c0 n_def)
    have d1j: "dtypes ?d1 ! j = (if is_date_column (strip (columns df ! j)) then DatetimeT else dtypes df ! j)"
      using p1 j by (simp add: t0 lt cj)
    have o1: "j \<in> set (object_columns ?d1) \<longleftrightarrow> dtypes ?d1 ! j = ObjectT"
      using j by (simp add: object_columns_props l1)
    have d2j: "dtypes ?d2 ! j = norm_dtype (strip (columns df ! j)) (dtypes df ! j)"
      using p2 p1 j by (auto simp: t0 lt o1 d1j c1 cj norm_dtype_def)
    have o2: "j \<in> set (object_columns ?d2) \<longleftrightarrow> dtypes ?d2 ! j = ObjectT"
      using j by (simp add: object_columns_props l2)
    show "dtypes (normalize_frame L df) ! j = norm_dtype (strip (columns df ! j)) (dtypes df ! j)"
      using p3 p2 p1 j by (auto simp: nf t0 lt o2 d2j norm_dtype_def)
    have g1: "get_column j ?d1 =
        (if is_date_column (strip (columns df ! j)) then to_datetime L (get_column j (dropna_all df))
         else get_column j (dropna_all df))"
      using p1 j by (simp add: cj get_column_strip_columns)
    have g2: "get_column j ?d2 =
          (if dtypes ?d1 ! j = ObjectT \<and> is_numeric_column (strip (columns df ! j))
           then map (to_numeric_cell L) (get_column j ?d1) else get_column j ?d1)"
      using p2 by (simp add: o1 c1 cj)
    have g3: "get_column j ?d3 =
          (if dtypes ?d2 ! j = ObjectT \<and> is_string_column (strip (columns df ! j))
           then map (normalize_string_cell L (strip (columns df ! j))) (get_column j ?d2) else get_column j ?d2)"
      using p3 by (simp add: o2 c2 c1 cj)
    show "get_column j (normalize_frame L df)
           = norm_col L (strip (columns df ! j)) (dtypes df ! j) (get_column j (dropna_all df))"
      unfolding nf g3 g2 g1 d2j d1j
      by (auto simp: norm_col_def norm_dtype_def)
  }
qed

text \<open>Stripping and lower-casing a second time changes nothing.\<close>

lemma dropWhile_rev_keeps_head:
  assumes "xs \<noteq> []" "\<not> P (hd xs)"
  shows "rev (dropWhile P (rev xs)) \<noteq> [] \<and> hd (rev (dropWhile P (rev xs))) = hd xs"
proof -
  obtain a w where xs: "xs = a # w" using assms(1) by (cases xs) auto
  have "\<exists>ys. dropWhile P (rev w @ [a]) = ys @ [a]"
    using assms(2) xs by (auto simp: dropWhile_append)
  then obtain ys where "dropWhile P (rev xs) = ys @ [a]" using xs by auto
  then show ?thesis using xs by simp
qed

lemma strip_idem: "strip (strip s) = strip s"
proof -
  let ?u = "dropWhile isspace s"
  let ?t = "rev (dropWhile isspace (rev ?u))"
  have u: "?u = [] \<or> \<not> isspace (hd ?u)" using hd_dropWhile [of isspace s] by blast
  have t1: "dropWhile isspace ?t = ?t"
  proof (cases "?u = []")
    case True show ?thesis unfolding True by simp
  next
    case False
    with u dropWhile_rev_keeps_head [of ?u isspace]
    have "?t \<noteq> [] \<and> \<not> isspace (hd ?t)" by auto
    then show ?thesis by (cases ?t) auto
  qed
  have "strip (strip s) = rev (dropWhile isspace (rev (dropWhile isspace ?t)))"
    by (simp add: strip_def)
  also have "\<dots> = rev (dropWhile isspace (rev ?t))" by (simp only: t1)
  also have "\<dots> = ?t" by (simp add: dropWhile_idem)
  finally show ?thesis by (simp add: strip_def)
qed

lemma lower_char_idem: "lower_char (lower_char c) = lower_char c"
  by (auto simp: lower_char_def Let_def)

lemma lower_idem: "lower (lower s) = lower s"
  by (simp add: lower_def lower_char_idem)

lemma isspace_lower_char: "isspace (lower_char c) = isspace c"
  by (auto simp: lower_char_def isspace_def Let_def)

lemma dropWhile_isspace_lower: "dropWhile isspace (lower s) = lower (dropWhile isspace s)"
  by (induction s) (auto simp: lower_def isspace_lower_char)

lemma strip_lower: "strip (lower s) = lower (strip s)"
proof -
  have r: "rev (lower s) = lower (rev s)" for s by (simp add: lower_def rev_map)
  show ?thesis
    by (simp add: strip_def dropWhile_isspace_lower r)
qed

lemma normalize_string_cell_idem:
  "normalize_string_cell L c (normalize_string_cell L c v) = normalize_string_cell L c v"
  by (simp add: normalize_string_cell_def astype_str_def Let_def strip_idem strip_lower lower_idem)

lemma normalize_string_cell_NA: "normalize_string_cell L c NA = Str ''nan''"
proof -
  have "strip ''nan'' = ''nan''" by code_simp
  moreover have "lower ''nan'' = ''nan''" by code_simp
  ultimately show ?thesis by (simp add: normalize_string_cell_def astype_str_def Let_def)
qed


lemma numeric_not_date: "is_numeric_column c \<Longrightarrow> \<not> is_date_column c"
proof -
  assume "is_numeric_column c"
  then consider "lower c = ''montant''" | "lower c = ''id_achat''" | "lower c = ''id_client''"
    by (auto simp: is_numeric_column_def)
  then show ?thesis
    by cases (simp_all add: is_date_column_def)
qed

lemma set_keep_first: "set (keep_first xs) = set xs"
  by (induction xs rule: keep_first.induct) auto

lemma keep_first_distinct: "distinct xs \<Longrightarrow> keep_first xs = xs"
proof (induction xs rule: keep_first.induct)
  case 1
  then show ?case by simp
next
  case (2 x xs)
  then have "filter (\<lambda>y. y \<noteq> x) xs = xs" by (auto intro: filter_True)
  with 2 show ?case by simp
qed

lemma columns_require_id: "columns (require_id name df) = columns df"
  by (simp add: require_id_def)

lemma dtypes_require_id: "dtypes (require_id name df) = dtypes df"
  by (simp add: require_id_def)

lemma rows_require_id_subset: "set (rows (require_id name df)) \<subseteq> set (rows df)"
  by (auto simp: require_id_def)

lemma rows_require_id_present:
  "name \<in> set (columns df) \<Longrightarrow> r \<in> set (rows (require_id name df)) \<Longrightarrow>
   r ! index_of name (columns df) \<noteq> NA"
  by (simp add: require_id_def)

lemma rows_require_id_keep:
  "r \<in> set (rows df) \<Longrightarrow> (name \<in> set (columns df) \<Longrightarrow> r ! index_of name (columns df) \<noteq> NA) \<Longrightarrow>
   r \<in> set (rows (require_id name df))"
  by (simp add: require_id_def)

lemma require_id_fix:
  "(\<And>r. name \<in> set (columns df) \<Longrightarrow> r \<in> set (rows df) \<Longrightarrow> r ! index_of name (columns df) \<noteq> NA) \<Longrightarrow>
   require_id name df = df"
  by (auto simp: require_id_def intro: filter_True)

lemma index_of_less: "x \<in> set xs \<Longrightarrow> index_of x xs < length xs"
  by (induction xs) auto

lemma columns_transform: "columns (transform_dataframe L df) = columns (normalize_frame L df)"
  by (simp add: transform_dataframe_def columns_require_id drop_duplicates_def)

lemma dtypes_transform: "dtypes (transform_dataframe L df) = dtypes (normalize_frame L df)"
  by (simp add: transform_dataframe_def dtypes_require_id drop_duplicates_def)

lemma rows_transform_subset:
  "set (rows (transform_dataframe L df)) \<subseteq> set (rows (normalize_frame L df))"
proof -
  have "set (rows (transform_dataframe L df)) \<subseteq> set (rows (drop_duplicates (normalize_frame L df)))"
    unfolding transform_dataframe_def
    using rows_require_id_subset by (meson subset_trans)
  then show ?thesis by (simp add: drop_duplicates_def set_keep_first)
qed

lemma transform_ids_present:
  assumes "name = ''id_client'' \<or> name = ''id_achat''"
    and "name \<in> set (columns (transform_dataframe L df))"
    and "r \<in> set (rows (transform_dataframe L df))"
  shows "r ! index_of name (columns (transform_dataframe L df)) \<noteq> NA"
proof -
  let ?d = "drop_duplicates (normalize_frame L df)"
  let ?c = "require_id ''id_client'' ?d"
  have cols: "columns (transform_dataframe L df) = columns ?d" "columns ?c = columns ?d"
    by (simp_all add: transform_dataframe_def columns_require_id)
  from assms(1) show ?thesis
  proof
    assume n: "name = ''id_client''"
    have "r \<in> set (rows ?c)"
      using assms(3) rows_require_id_subset [of "''id_achat''" ?c]
      by (auto simp: transform_dataframe_def)
    then show ?thesis
      using rows_require_id_present [of name ?d r] assms(2) n cols by simp
  next
    assume n: "name = ''id_achat''"
    show ?thesis
      using rows_require_id_present [of name ?c r] assms(2,3) n cols
      by (simp add: transform_dataframe_def)
  qed
qed

lemma nth_row_column:
  "i < length (rows df) \<Longrightarrow> rows df ! i ! j = get_column j df ! i"
  by (simp add: get_column_def)

lemma norm_col_length: "library_ok L \<Longrightarrow> length (norm_col L c t cs) = length cs"
  by (simp add: norm_col_def library_ok_length)

lemma norm_dtype_idem: "norm_dtype c (norm_dtype c t) = norm_dtype c t"
  by (simp add: norm_dtype_def)

lemma norm_col_fix:
  assumes ok: "library_ok L" and sub: "set cs' \<subseteq> set (norm_col L c t cs)"
  shows "norm_col L c (norm_dtype c t) cs' = cs'"
proof (cases "is_date_column c")
  case True
  have "list_all is_timestamp (to_datetime L cs)" by (rule library_ok_timestamps [OF ok])
  with sub True have "list_all is_timestamp cs'" by (auto simp: norm_col_def list_all_iff)
  with True show ?thesis by (simp add: norm_col_def library_ok_id [OF ok])
next
  case nd: False
  show ?thesis
  proof (cases "t = ObjectT \<and> is_numeric_column c")
    case True
    with nd show ?thesis by (simp add: norm_col_def norm_dtype_def)
  next
    case nn: False
    show ?thesis
    proof (cases "t = ObjectT \<and> is_string_column c")
      case True
      have "normalize_string_cell L c v = v" if "v \<in> set cs'" for v
      proof -
        from that sub nd nn True obtain w where "v = normalize_string_cell L c w"
          by (auto simp: norm_col_def)
        then show ?thesis by (simp add: normalize_string_cell_idem)
      qed
      then have "map (normalize_string_cell L c) cs' = cs'" by (simp add: map_idI)
      with nd nn True show ?thesis by (auto simp: norm_col_def norm_dtype_def)
    next
      case False
      with nd nn show ?thesis by (auto simp: norm_col_def norm_dtype_def)
    qed
  qed
qed

lemma rows_eq_from_columns:
  assumes "rect n a" "rect n b" "length (rows a) = length (rows b)"
    and "\<And>j. j < n \<Longrightarrow> get_column j a = get_column j b"
  shows "rows a = rows b"
proof (rule nth_equalityI)
  show "length (rows a) = length (rows b)" by fact
next
  fix i assume i: "i < length (rows a)"
  then have la: "length (rows a ! i) = n" and lb: "length (rows b ! i) = n"
    using assms(1,2,3) by (auto simp: rect_def list_all_iff)
  show "rows a ! i = rows b ! i"
  proof (rule nth_equalityI)
    show "length (rows a ! i) = length (rows b ! i)" using la lb by simp
  next
    fix j assume "j < length (rows a ! i)"
    then have "j < n" using la by simp
    from assms(4) [OF this] have "get_column j a ! i = get_column j b ! i" by simp
    then show "rows a ! i ! j = rows b ! i ! j"
      using i assms(3) by (simp add: get_column_def)
  qed
qed

lemma rect_subset: "rect n a \<Longrightarrow> set (rows b) \<subseteq> set (rows a) \<Longrightarrow> rect n b"
  by (auto simp: rect_def list_all_iff)

lemma columns_normalize_frame: "columns (normalize_frame L df) = map strip (columns df)"
  by (simp add: normalize_frame_def normalize_strings_def normalize_numeric_def parse_dates_def
      columns_for_columns strip_columns_def dropna_all_def)

lemma columns_transform_raw: "columns (transform_dataframe L df) = map strip (columns df)"
  by (simp add: columns_transform columns_normalize_frame)

lemma rows_transform:
  "set (rows (transform_dataframe L df)) =
     {r \<in> set (rows (normalize_frame L df)).
        \<forall>name \<in> {''id_client'', ''id_achat''} \<inter> set (map strip (columns df)).
          r ! index_of name (map strip (columns df)) \<noteq> NA}"
  by (auto simp: transform_dataframe_def require_id_def drop_duplicates_def set_keep_first
      columns_normalize_frame)

text \<open>
  C6. In the cleaned table no row has a missing value in the column \<^verbatim>\<open>id_client\<close> or in
  the column \<^verbatim>\<open>id_achat\<close>, for each of the two that the extract has (a purchase extract
  has both); and the rows of the cleaned table are the rows of the normalised table
  with a value in these columns, so that the rows dropped at this step are the ones
  with a missing identifier, and no other.
\<close>

theorem cleaned_ids_present:
  "(\<forall>name \<in> {''id_client'', ''id_achat''} \<inter> set (map strip (columns df)).
      list_all (\<lambda>r. r ! index_of name (map strip (columns df)) \<noteq> NA)
        (rows (transform_dataframe L df)))
   \<and> set (rows (transform_dataframe L df)) =
     {r \<in> set (rows (normalize_frame L df)).
        \<forall>name \<in> {''id_client'', ''id_achat''} \<inter> set (map strip (columns df)).
          r ! index_of name (map strip (columns df)) \<noteq> NA}"
proof
  show "\<forall>name \<in> {''id_client'', ''id_achat''} \<inter> set (map strip (columns df)).
      list_all (\<lambda>r. r ! index_of name (map strip (columns df)) \<noteq> NA)
        (rows (transform_dataframe L df))"
    unfolding list_all_iff rows_transform by blast
next
  show "set (rows (transform_dataframe L df)) =
     {r \<in> set (rows (normalize_frame L df)).
        \<forall>name \<in> {''id_client'', ''id_achat''} \<inter> set (map strip (columns df)).
          r ! index_of name (map strip (columns df)) \<noteq> NA}"
    by (rule rows_transform)
qed

lemma example_purchases_cleaned:
  "rows (transform_dataframe example_library example_purchases) = [[Num 1, Num 1, Num 7]]"
  by code_simp

lemma example_purchases_columns:
  "map strip (columns example_purchases) = [''id_achat'', ''id_client'', ''montant'']"
  by code_simp

theorem cleaned_ids_present_witness:
  "list_all (\<lambda>r. r ! 1 \<noteq> NA) (rows (transform_dataframe example_library example_purchases))
   \<and> list_all (\<lambda>r. r ! 0 \<noteq> NA) (rows (transform_dataframe example_library example_purchases))
   \<and> rows (transform_dataframe example_library example_purchases) = [[Num 1, Num 1, Num 7]]"
proof -
  have "list_all (\<lambda>r. r ! index_of ''id_client'' (map strip (columns example_purchases)) \<noteq> NA)
          (rows (transform_dataframe example_library example_purchases))"
    and "list_all (\<lambda>r. r ! index_of ''id_achat'' (map strip (columns example_purchases)) \<noteq> NA)
          (rows (transform_dataframe example_library example_purchases))"
    using cleaned_ids_present [of example_purchases example_library]
    by (simp_all add: example_purchases_columns)
  then show ?thesis
    using example_purchases_cleaned by (simp add: example_purchases_columns)
qed

lemma example_to_datetime_timestamp: "is_timestamp (example_to_datetime c)"
  by (cases c) (auto simp: example_to_datetime_def is_timestamp_def split: option.splits)

lemma example_to_datetime_id: "is_timestamp c \<Longrightarrow> example_to_datetime c = c"
  by (cases c) (auto simp: example_to_datetime_def is_timestamp_def)

lemma example_library_ok: "library_ok example_library"
  unfolding library_ok_def example_library_def
  by (auto simp: list_all_iff example_to_datetime_timestamp example_to_datetime_id intro: map_idI)

lemma rows_dropna_all_subset: "set (rows (dropna_all df)) \<subseteq> set (rows df)"
  by (auto simp: dropna_all_def)

lemma second_pass:
  assumes wf: "wf_frame df" and ok: "library_ok L"
  shows "transform_dataframe L (transform_dataframe L df) = dropna_all (transform_dataframe L df)"
proof -
  let ?N = "normalize_frame L df"
  let ?X = "transform_dataframe L df"
  let ?D = "dropna_all ?X"
  let ?n = "length (columns df)"
  note P = normalize_frame_props [OF wf ok]
  have cX: "columns ?X = map strip (columns df)" by (simp add: columns_transform P(1))
  have tX: "dtypes ?X = dtypes ?N" by (rule dtypes_transform)
  have sub: "set (rows ?X) \<subseteq> set (rows ?N)" by (rule rows_transform_subset)
  have rX: "rect ?n ?X" using rect_subset [OF P(2) sub] .
  have dX: "distinct (rows ?X)"
    unfolding transform_dataframe_def
    by (simp add: require_id_def drop_duplicates_def distinct_keep_first)
  have wfX: "wf_frame ?X"
    using wf rX P(4) by (simp add: wf_frame_def cX tX rect_def strip_idem comp_def)
  have lX: "length (columns ?X) = ?n" by (simp add: cX)
  have cD: "columns ?D = columns ?X" and tD: "dtypes ?D = dtypes ?X"
    by (simp_all add: dropna_all_def)
  have subD: "set (rows ?D) \<subseteq> set (rows ?X)" by (rule rows_dropna_all_subset)
  have rD: "rect ?n ?D" using rect_subset [OF rX subD] .
  have dD: "distinct (rows ?D)" using dX by (simp add: dropna_all_def)
  note Q = normalize_frame_props [OF wfX ok, unfolded lX]
  have colsN: "columns (normalize_frame L ?X) = columns ?D"
    by (simp add: Q(1) cD cX strip_idem comp_def)
  have dtN: "dtypes (normalize_frame L ?X) = dtypes ?D"
  proof (rule nth_equalityI)
    show "length (dtypes (normalize_frame L ?X)) = length (dtypes ?D)"
      by (simp add: Q(4) tD tX P(4))
  next
    fix j assume "j < length (dtypes (normalize_frame L ?X))"
    then have j: "j < ?n" by (simp add: Q(4))
    show "dtypes (normalize_frame L ?X) ! j = dtypes ?D ! j"
      using Q(5) [OF j] P(5) [OF j] j
      by (simp add: tD tX cX strip_idem norm_dtype_idem)
  qed
  have rowsN: "rows (normalize_frame L ?X) = rows ?D"
  proof (rule rows_eq_from_columns [OF Q(2) rD])
    show "length (rows (normalize_frame L ?X)) = length (rows ?D)" by (simp add: Q(3))
  next
    fix j assume j: "j < ?n"
    have "set (get_column j ?D) \<subseteq> set (get_column j ?N)"
      using sub subD by (auto simp: get_column_def)
    then have s: "set (get_column j ?D)
        \<subseteq> set (norm_col L (strip (columns df ! j)) (dtypes df ! j) (get_column j (dropna_all df)))"
      by (simp add: P(6) [OF j])
    show "get_column j (normalize_frame L ?X) = get_column j ?D"
      using Q(6) [OF j] P(5) [OF j] j norm_col_fix [OF ok s]
      by (simp add: tX cX strip_idem)
  qed
  have N: "normalize_frame L ?X = ?D"
    by (rule dataframe.equality) (simp_all add: colsN dtN rowsN)
  have D: "drop_duplicates ?D = ?D"
    by (simp add: drop_duplicates_def keep_first_distinct [OF dD])
  have present: "r ! index_of name (columns ?D) \<noteq> NA"
    if "name = ''id_client'' \<or> name = ''id_achat''" "name \<in> set (columns ?D)" "r \<in> set (rows ?D)"
    for name r
    using transform_ids_present [of name L df r] that subD by (auto simp: cD)
  have C: "require_id ''id_client'' ?D = ?D"
    by (rule require_id_fix) (use present in auto)
  have A: "require_id ''id_achat'' ?D = ?D"
    by (rule require_id_fix) (use present in auto)
  have "transform_dataframe L ?X = require_id ''id_achat'' (require_id ''id_client'' (drop_duplicates (normalize_frame L ?X)))"
    by (simp add: transform_dataframe_def)
  also have "\<dots> = ?D" by (simp only: N D C A)
  finally show ?thesis .
qed

lemma dropna_all_has_value:
  "dropna_all df = df\<lparr>rows := filter has_value (rows df)\<rparr>"
proof -
  have "(\<lambda>r. \<not> list_all (\<lambda>c. c = NA) r) = has_value"
    by (auto simp: has_value_def list_all_iff list_ex_iff fun_eq_iff)
  then show ?thesis by (simp add: dropna_all_def)
qed

lemma rows_update_id: "df\<lparr>rows := rs\<rparr> = df \<longleftrightarrow> rs = rows df"
  by (cases df) auto

lemma id_row_has_value:
  assumes wf: "wf_frame df" and ok: "library_ok L"
    and ident: "''id_client'' \<in> set (map strip (columns df)) \<or> ''id_achat'' \<in> set (map strip (columns df))"
    and r: "r \<in> set (rows (transform_dataframe L df))"
  shows "has_value r"
proof -
  let ?X = "transform_dataframe L df"
  note P = normalize_frame_props [OF wf ok]
  have cX: "columns ?X = map strip (columns df)" by (simp add: columns_transform P(1))
  have rX: "rect (length (columns df)) ?X" using rect_subset [OF P(2) rows_transform_subset] .
  from ident obtain name where nm: "name = ''id_client'' \<or> name = ''id_achat''"
    "name \<in> set (columns ?X)" by (auto simp: cX)
  have "index_of name (columns ?X) < length r"
    using index_of_less [OF nm(2)] rX r by (auto simp: rect_def list_all_iff cX)
  moreover have "r ! index_of name (columns ?X) \<noteq> NA" using transform_ids_present [OF nm r] .
  ultimately show ?thesis unfolding has_value_def list_ex_iff by (meson nth_mem)
qed

text \<open>
  C8, as stated, fails on an extract without identifier columns: a row where no field
  parses comes out of the first cleaning with every field missing, since the rows
  without a value are dropped before the fields are parsed, and the second cleaning
  drops it.
\<close>

theorem cleaning_twice_counterexample:
  "rows (transform_dataframe example_library example_prices_raw)
     = [[Ts (midnight 2024 3 5), Num 7], [NA, NA]]
   \<and> rows (transform_dataframe example_library (transform_dataframe example_library example_prices_raw))
     = [[Ts (midnight 2024 3 5), Num 7]]"
  by code_simp

text \<open>
  C8, amended. Cleaning a cleaned table drops its rows without a value and changes
  nothing else. So the cleaning of its own output gives the same table exactly when
  no row of the cleaned table is without a value; this is so for every extract with a
  column \<^verbatim>\<open>id_client\<close> or \<^verbatim>\<open>id_achat\<close>, as the client and purchase extracts have.
\<close>

theorem cleaning_idempotent:
  assumes wf: "wf_frame df" and ok: "library_ok L"
  shows "transform_dataframe L (transform_dataframe L df)
           = (transform_dataframe L df)\<lparr>rows := filter has_value (rows (transform_dataframe L df))\<rparr>
    \<and> (transform_dataframe L (transform_dataframe L df) = transform_dataframe L df
          \<longleftrightarrow> list_all has_value (rows (transform_dataframe L df)))
    \<and> (''id_client'' \<in> set (map strip (columns df)) \<or> ''id_achat'' \<in> set (map strip (columns df))
          \<longrightarrow> transform_dataframe L (transform_dataframe L df) = transform_dataframe L df)"
proof -
  let ?X = "transform_dataframe L df"
  have a: "transform_dataframe L ?X = ?X\<lparr>rows := filter has_value (rows ?X)\<rparr>"
    using second_pass [OF wf ok] dropna_all_has_value [of ?X] by simp
  have b: "transform_dataframe L ?X = ?X \<longleftrightarrow> list_all has_value (rows ?X)"
    unfolding a rows_update_id by (simp add: filter_id_conv list_all_iff)
  have c: "transform_dataframe L ?X = ?X"
    if "''id_client'' \<in> set (map strip (columns df)) \<or> ''id_achat'' \<in> set (map strip (columns df))"
    unfolding b list_all_iff using id_row_has_value [OF wf ok that] by blast
  show ?thesis using a b c by blast
qed

lemma example_purchases_wf: "wf_frame example_purchases"
  by code_simp

theorem cleaning_idempotent_witness:
  "transform_dataframe example_library (transform_dataframe example_library example_purchases)
     = transform_dataframe example_library example_purchases"
proof -
  have "''id_client'' \<in> set (map strip (columns example_purchases))"
    by (simp add: example_purchases_columns)
  with cleaning_idempotent [OF example_purchases_wf example_library_ok] show ?thesis by blast
qed











section \<open>Properties of the publication stage\<close>

lemma map_of_set_field: "map_of (set_field k v d) k' = (if k' = k then Some v else map_of d k')"
  by (induction k v d rule: set_field.induct) auto

lemma set_fields_ingest_meta:
  "set_fields (ingest_meta name stamp md) d =
     set_field ''source_info'' (BDoc (set_field ''last_modified'' (dict_get md ''last_modified'') md))
       (set_field ''ingest_time'' (BStr stamp) (set_field ''collection'' (BStr name) d))"
  by (simp add: set_fields_def ingest_meta_def)

lemma matches_set_fields_meta:
  "matches_collection n (set_fields (ingest_meta name stamp md) d) \<longleftrightarrow> n = name"
  by (auto simp: set_fields_ingest_meta matches_collection_def map_of_set_field)

lemma meta_fields:
  "dict_get (set_fields (ingest_meta name stamp md) d) ''ingest_time'' = BStr stamp"
  "source_last_modified_of (set_fields (ingest_meta name stamp md) d)
     = Inr (dict_get md ''last_modified'')"
  by (simp_all add: set_fields_ingest_meta dict_get_def source_last_modified_of_def
      map_of_set_field)

lemma find_one_update_one:
  "\<exists>d. find_one name (update_one_upsert name (ingest_meta name stamp md) docs)
        = Some (set_fields (ingest_meta name stamp md) d)"
proof (induction docs)
  case Nil
  show ?case by (auto simp: find_one_def matches_set_fields_meta)
next
  case (Cons a docs)
  then show ?case by (auto simp: find_one_def matches_set_fields_meta)
qed

lemma count_update_one:
  "length (filter (matches_collection name) (update_one_upsert name (ingest_meta name stamp md) docs))
   = max 1 (length (filter (matches_collection name) docs))"
  by (induction docs) (auto simp: matches_set_fields_meta)

lemma write_table:
  "name \<noteq> ''ingest_metadata'' \<Longrightarrow>
   write_df_to_mongo stamp now df name md db name = (if empty_df df then [] else to_dict_records df)"
  by (simp add: write_df_to_mongo_def Let_def insert_many_def delete_many_def)

lemma write_meta:
  "name \<noteq> ''ingest_metadata'' \<Longrightarrow>
   write_df_to_mongo stamp now df name md db ''ingest_metadata''
   = update_one_upsert name (ingest_meta name (stamp now) md) (db ''ingest_metadata'')"
  by (simp add: write_df_to_mongo_def Let_def insert_many_def delete_many_def)

lemma meta_fields_stored:
  "stored_ingest_time (set_fields (ingest_meta name stamp md) d) = BStr stamp"
  "stored_last_modified (set_fields (ingest_meta name stamp md) d)
     = (case map_of md ''last_modified'' of None \<Rightarrow> BNone | Some v \<Rightarrow> v)"
  by (simp_all add: set_fields_ingest_meta stored_ingest_time_def stored_last_modified_def
      map_of_set_field dict_get_def)

lemma write_table_records:
  "name \<noteq> ''ingest_metadata'' \<Longrightarrow>
   write_df_to_mongo stamp now df name md db name = table_records df"
  by (simp add: write_table table_records_def)

lemma write_meta_any:
  "write_df_to_mongo stamp now df name md db ''ingest_metadata''
   = update_one_upsert name (ingest_meta name (stamp now) md)
       (if name = ''ingest_metadata'' then table_records df else db ''ingest_metadata'')"
  by (simp add: write_df_to_mongo_def Let_def insert_many_def delete_many_def table_records_def)

text \<open>
  C3, as stated, fails in two ways. At the table name \<^verbatim>\<open>ingest_metadata\<close> the table and
  the metadata records are one collection of the store, so after the publication of a
  table of one row the collection holds that row and the metadata record, not exactly
  the table. And a publication updates one metadata record only: when a table with a
  column \<^verbatim>\<open>collection\<close> has been published under the name \<^verbatim>\<open>ingest_metadata\<close>, its two rows
  are two metadata records of \<^verbatim>\<open>volumes_month\<close>, and there are still two after the
  publication of \<^verbatim>\<open>volumes_month\<close>.
\<close>

theorem publication_metadata_name_counterexample:
  "write_df_to_mongo example_isoformat example_now example_volumes ''ingest_metadata''
     example_metadata (\<lambda>n. []) ''ingest_metadata''
   \<noteq> to_dict_records example_volumes
   \<and> length (filter (matches_collection ''volumes_month'')
        (write_df_to_mongo example_isoformat example_now example_volumes ''volumes_month''
           example_metadata
           (write_df_to_mongo example_isoformat example_now example_collection_table
              ''ingest_metadata'' example_metadata (\<lambda>n. []))
           ''ingest_metadata'')) = 2"
  by code_simp

text \<open>
  C3, amended. For every table name other than \<^verbatim>\<open>ingest_metadata\<close>, after a publication
  the collection of that name holds exactly the records of the published table (none
  when the table is empty), whatever it held before, so after a second publication
  exactly the second content. For every table name, the first metadata record found
  for the name after a publication has \<^verbatim>\<open>ingest_time\<close> set to the clock's reading and
  \<^verbatim>\<open>last_modified\<close> to the caller's value, and the number of metadata records of the name
  is one when there was none or one before, and unchanged otherwise (before: in the
  metadata collection, which under the name \<^verbatim>\<open>ingest_metadata\<close> holds the rows just
  written).
\<close>

theorem publication_replaces:
  assumes first: "db_a = write_df_to_mongo isoformat now df name metadata db"
    and second: "db_b = write_df_to_mongo isoformat now_b df_b name metadata_b db_a"
  shows "(name \<noteq> ''ingest_metadata'' \<longrightarrow>
            db_a name = table_records df \<and> db_b name = table_records df_b)
     \<and> (\<exists>m. find_one name (db_a ''ingest_metadata'') = Some m
            \<and> stored_ingest_time m = BStr (isoformat now)
            \<and> stored_last_modified m
                = (case map_of metadata ''last_modified'' of None \<Rightarrow> BNone | Some v \<Rightarrow> v))
     \<and> length (filter (matches_collection name) (db_a ''ingest_metadata''))
         = max 1 (length (filter (matches_collection name)
             (if name = ''ingest_metadata'' then table_records df else db ''ingest_metadata'')))"
proof -
  have t: "name \<noteq> ''ingest_metadata'' \<longrightarrow>
            db_a name = table_records df \<and> db_b name = table_records df_b"
    unfolding first second by (simp add: write_table_records)
  have m: "db_a ''ingest_metadata''
      = update_one_upsert name (ingest_meta name (isoformat now) metadata)
          (if name = ''ingest_metadata'' then table_records df else db ''ingest_metadata'')"
    unfolding first by (rule write_meta_any)
  obtain d where d: "find_one name (db_a ''ingest_metadata'')
      = Some (set_fields (ingest_meta name (isoformat now) metadata) d)"
    unfolding m using find_one_update_one by blast
  have t3: "\<exists>m. find_one name (db_a ''ingest_metadata'') = Some m
            \<and> stored_ingest_time m = BStr (isoformat now)
            \<and> stored_last_modified m
                = (case map_of metadata ''last_modified'' of None \<Rightarrow> BNone | Some v \<Rightarrow> v)"
    using d meta_fields_stored by blast
  have t4: "length (filter (matches_collection name) (db_a ''ingest_metadata''))
         = max 1 (length (filter (matches_collection name)
             (if name = ''ingest_metadata'' then table_records df else db ''ingest_metadata'')))"
    unfolding m by (rule count_update_one)
  from t t3 t4 show ?thesis by blast
qed

theorem publication_replaces_witness:
  "write_df_to_mongo example_isoformat example_now example_volumes2 ''volumes_month'' example_metadata
     (write_df_to_mongo example_isoformat example_now example_volumes ''volumes_month''
        example_metadata (\<lambda>n. [])) ''volumes_month''
   = to_dict_records example_volumes2
   \<and> length (filter (matches_collection ''volumes_month'')
       (write_df_to_mongo example_isoformat example_now example_volumes ''volumes_month''
          example_metadata (\<lambda>n. []) ''ingest_metadata'')) = 1"
proof -
  have n: "''volumes_month'' \<noteq> ''ingest_metadata''" by simp
  have e: "table_records example_volumes2 = to_dict_records example_volumes2"
    by (simp add: table_records_def empty_df_def example_volumes2_def)
  show ?thesis
    using publication_replaces [where isoformat = example_isoformat and now = example_now
        and df = example_volumes and name = "''volumes_month''" and metadata = example_metadata
        and db = "\<lambda>n. []" and now_b = example_now and df_b = example_volumes2
        and metadata_b = example_metadata, OF refl refl]
      n e
    by simp
qed

section \<open>Properties of the freshness resolver\<close>

lemma find_one_None_iff:
  "find_one name docs = None \<longleftrightarrow> \<not> list_ex (matches_collection name) docs"
  by (auto simp: find_one_def find_None_iff list_ex_iff)

lemma find_one_Some_matches:
  "find_one name docs = Some meta \<Longrightarrow> matches_collection name meta \<and> meta \<in> set docs"
  by (auto simp: find_one_def find_Some_iff)

lemma matches_nonempty: "matches_collection name meta \<Longrightarrow> meta \<noteq> []"
  by (auto simp: matches_collection_def)

lemma source_last_modified_of_error:
  "source_last_modified_of meta = Inl e \<Longrightarrow> e = AttributeError"
  by (auto simp: source_last_modified_of_def split: option.splits bson.splits)

lemma normalize_utc_error: "normalize_utc v = Inl e \<Longrightarrow> e = AttributeError"
  by (auto simp: normalize_utc_def split: if_splits bson.splits)

lemma datetime_sub_error: "datetime_sub a b = Inl e \<Longrightarrow> e = TypeError"
  by (auto simp: datetime_sub_def split: option.splits)

lemma seconds_until_error: "seconds_until now d = Inl e \<Longrightarrow> e = TypeError"
  by (auto simp: seconds_until_def split: option.splits)

lemma delta_src_ing_error: "delta_src_ing s i = Inl e \<Longrightarrow> e = TypeError"
  by (auto simp: delta_src_ing_def split: option.splits sum.splits dest: datetime_sub_error)

lemma delta_ing_now_error: "delta_ing_now now i = Inl e \<Longrightarrow> e = TypeError"
  by (auto simp: delta_ing_now_def split: option.splits sum.splits dest: seconds_until_error)

text \<open>
  C5. The resolver fails with NotFound exactly when the store has no metadata record for
  the name: with no record the result is NotFound and no value, and with a record the
  result is never NotFound.
\<close>

theorem resolver_not_found_iff:
  "get_metadata fromisoformat now db name = Inl NotFound
   \<longleftrightarrow> \<not> list_ex (matches_collection name) (db ''ingest_metadata'')"
proof (cases "find_one name (db ''ingest_metadata'')")
  case None
  then show ?thesis
    by (simp add: get_metadata_def find_one_None_iff [symmetric])
next
  case (Some meta)
  then have ne: "meta \<noteq> []" and ex: "list_ex (matches_collection name) (db ''ingest_metadata'')"
    using find_one_Some_matches [OF Some] matches_nonempty
      find_one_None_iff [of name "db ''ingest_metadata''"]
    by auto
  have "get_metadata fromisoformat now db name \<noteq> Inl NotFound"
    using Some ne
    by (auto simp: get_metadata_def Let_def split: sum.splits
        dest: source_last_modified_of_error normalize_utc_error delta_src_ing_error
          delta_ing_now_error)
  with ex show ?thesis by simp
qed
















end
